theory Spec2Isabelle
  imports Main "HOL-Library.Word" "HOL-Library.Sublist"
begin

section \<open>JavaScript values carried by requests and responses\<close>

text \<open>
  \<open>express.json()\<close> parses the request body; the handlers destructure fields out of
  it and test them with \<open>!\<close>. A field that is absent reads as \<open>undefined\<close>. JSON numbers
  are kept as integers: the handlers only ever test a number for truthiness, and no
  column of the schema is numeric. A string stands for the UTF-8 encoding of a
  well-formed JavaScript string, so the character U+0000 is the byte \<open>0x00\<close>.
\<close>

datatype jsval =
    Undefined
  | Null
  | JBool bool
  | JNum int
  | JStr string
  | JArr "jsval list"
  | JObj "(string \<times> jsval) list"

text \<open>JavaScript truthiness, as used by \<open>!username\<close>, \<open>!task\<close>, ...\<close>

fun truthy :: "jsval \<Rightarrow> bool" where
  "truthy Undefined = False"
| "truthy Null = False"
| "truthy (JBool b) = b"
| "truthy (JNum n) = (n \<noteq> 0)"
| "truthy (JStr s) = (s \<noteq> [])"
| "truthy (JArr xs) = True"
| "truthy (JObj kvs) = True"

text \<open>
  A parsed JSON body: a finite map from property names to values (an array body has
  none of the names the handlers read). \<open>req.body\<close> itself is a \<open>reqbody option\<close>: under
  Express 5, which the repository uses, it is \<open>undefined\<close> (\<open>None\<close>) when the request
  carried no JSON body for \<open>express.json()\<close> to parse.
\<close>

type_synonym reqbody = "string \<rightharpoonup> jsval"

text \<open>Reading one name in the destructuring \<open>const {k} = req.body\<close> of a defined body.\<close>

definition getprop :: "reqbody \<Rightarrow> string \<Rightarrow> jsval" where
  "getprop b k = (case b k of None \<Rightarrow> Undefined | Some v \<Rightarrow> v)"

record response =
  status :: nat
  body :: jsval

section \<open>Persisted entities\<close>

text \<open>
  Modelled from the spec: the \<open>User\<close> table, whose migration and Prisma schema are not
  among the sources. The spec gives \<open>User(id, username, password)\<close> with a generated
  unique identifier; the \<open>Todo\<close> foreign key of the migration refers to \<open>"User"("id")\<close>.
\<close>

record user =
  user_id :: string
  user_username :: string
  user_password :: string

text \<open>
  The \<open>Todo\<close> table of \<open>migration.sql\<close>: four \<open>NOT NULL\<close> columns, \<open>id\<close> the primary
  key, \<open>done\<close> with \<open>DEFAULT false\<close>, \<open>userId\<close> a foreign key to \<open>"User"("id")\<close>.
\<close>

record todo =
  todo_id :: string
  todo_task :: string
  todo_done :: bool
  todo_userId :: string

text \<open>The storage state: both tables, rows in insertion order.\<close>

record db =
  users :: "user list"
  todos :: "todo list"

definition empty_db :: db where
  "empty_db = \<lparr>users = [], todos = []\<rparr>"

definition user_json :: "user \<Rightarrow> jsval" where
  "user_json u = JObj [(''id'', JStr (user_id u)), (''username'', JStr (user_username u)),
                       (''password'', JStr (user_password u))]"

definition todo_json :: "todo \<Rightarrow> jsval" where
  "todo_json t = JObj [(''id'', JStr (todo_id t)), (''task'', JStr (todo_task t)),
                       (''done'', JBool (todo_done t)), (''userId'', JStr (todo_userId t))]"

section \<open>The Data Access Client as the adapters see it\<close>

text \<open>
  Every failure of a storage round-trip is a rejected promise; the kinds that the spec
  names, plus the rejection of ill-typed \<open>data\<close> by the client itself and the store's
  refusal of a text value that contains U+0000.
\<close>

datatype storage_error =
    Connectivity
  | Timeout
  | UniqueViolation
  | ForeignKeyViolation
  | InvalidArgument
  | InvalidText

text \<open>The \<open>data\<close> objects the handlers build: the destructured values, untouched.\<close>

record user_data =
  ud_username :: jsval
  ud_password :: jsval

record todo_data =
  td_task :: jsval
  td_userId :: jsval
  td_done :: jsval

text \<open>
  The handlers import \<open>prismaClient\<close> and use four of its operations. The adapters are
  modelled over any client with these operations on any state \<open>'s\<close>; a promise that
  resolves is \<open>Inr\<close>, one that rejects is \<open>Inl\<close>.
\<close>

record 's client =
  user_findMany :: "'s \<Rightarrow> (storage_error + user list) \<times> 's"
  user_create :: "user_data \<Rightarrow> 's \<Rightarrow> (storage_error + user) \<times> 's"
  todo_findMany :: "'s \<Rightarrow> (storage_error + todo list) \<times> 's"
  todo_create :: "todo_data \<Rightarrow> 's \<Rightarrow> (storage_error + todo) \<times> 's"

section \<open>Observable events of a handler\<close>

datatype call =
    UserFindMany
  | UserCreate user_data
  | TodoFindMany
  | TodoCreate todo_data

text \<open>A WebSocket message: Bun delivers a string or a buffer of bytes.\<close>

datatype ws_data = Text string | Binary "8 word list"

text \<open>What can leave a handler as an exception: a rejected storage call, or a \<open>TypeError\<close>.\<close>

datatype js_error = TypeError | Rejection storage_error

text \<open>
  What a handler does, in order: \<open>Query\<close> when it issues a storage call, \<open>Settled\<close> when
  the awaited promise has resolved or rejected and the handler resumes, then what it
  writes: an HTTP response, a WebSocket frame, a console line, the rendered page, or
  an exception that nothing in the handler catches. \<open>DefaultErrorPage\<close> is the answer of
  Express's own error handler to an exception that left a route handler: the given
  status with a page of its own, not the handler's JSON.
\<close>

datatype event =
    Query call
  | Settled
  | Respond response
  | WsSend ws_data
  | ConsoleLog user
  | ConsoleError storage_error
  | Render jsval
  | Uncaught js_error
  | DefaultErrorPage nat

section \<open>The REST adapter\<close>

definition internal_server_error :: response where
  "internal_server_error =
     \<lparr>status = 500, body = JObj [(''error'', JStr ''Internal Server Error'')]\<rparr>"

text \<open>\<open>app.get('/')\<close>: \<open>res.json(users)\<close> answers with the default status 200.\<close>

definition get_root :: "'s client \<Rightarrow> 's \<Rightarrow> event list \<times> 's" where
  "get_root c s =
     (case user_findMany c s of
        (Inr us, s') \<Rightarrow>
          ([Query UserFindMany, Settled,
            Respond \<lparr>status = 200, body = JArr (map user_json us)\<rparr>], s')
      | (Inl e, s') \<Rightarrow>
          ([Query UserFindMany, Settled, Respond internal_server_error], s'))"

text \<open>\<open>app.get('/todos')\<close>\<close>

definition get_todos :: "'s client \<Rightarrow> 's \<Rightarrow> event list \<times> 's" where
  "get_todos c s =
     (case todo_findMany c s of
        (Inr ts, s') \<Rightarrow>
          ([Query TodoFindMany, Settled,
            Respond \<lparr>status = 200, body = JArr (map todo_json ts)\<rparr>], s')
      | (Inl e, s') \<Rightarrow>
          ([Query TodoFindMany, Settled, Respond internal_server_error], s'))"

text \<open>
  \<open>app.post('/')\<close>. The first statement destructures \<open>req.body\<close>; on an undefined body
  that throws a \<open>TypeError\<close> before the test of the fields, the promise of the handler
  rejects, and Express answers 500 from its default error handler.
\<close>

definition post_root :: "'s client \<Rightarrow> reqbody option \<Rightarrow> 's \<Rightarrow> event list \<times> 's" where
  "post_root c req_body s =
     (case req_body of
        None \<Rightarrow> ([Uncaught TypeError, DefaultErrorPage 500], s)
      | Some b \<Rightarrow>
     (let username = getprop b ''username''; password = getprop b ''password'' in
      if \<not> truthy username \<or> \<not> truthy password then
        ([Respond \<lparr>status = 400,
                   body = JObj [(''error'', JStr ''Username and password are required'')]\<rparr>], s)
      else
        (let d = \<lparr>ud_username = username, ud_password = password\<rparr> in
         case user_create c d s of
           (Inr u, s') \<Rightarrow>
             ([Query (UserCreate d), Settled,
               Respond \<lparr>status = 201, body = user_json u\<rparr>], s')
         | (Inl e, s') \<Rightarrow>
             ([Query (UserCreate d), Settled, Respond internal_server_error], s'))))"

text \<open>\<open>app.post('/todos')\<close>, with the same destructuring of \<open>req.body\<close> first.\<close>

definition post_todos :: "'s client \<Rightarrow> reqbody option \<Rightarrow> 's \<Rightarrow> event list \<times> 's" where
  "post_todos c req_body s =
     (case req_body of
        None \<Rightarrow> ([Uncaught TypeError, DefaultErrorPage 500], s)
      | Some b \<Rightarrow>
     (let task = getprop b ''task''; userId = getprop b ''userId''; done = getprop b ''done'' in
      if \<not> truthy task \<or> \<not> truthy userId then
        ([Respond \<lparr>status = 400,
                   body = JObj [(''error'', JStr ''Task and userId are required'')]\<rparr>], s)
      else
        (let d = \<lparr>td_task = task, td_userId = userId, td_done = done\<rparr> in
         case todo_create c d s of
           (Inr t, s') \<Rightarrow>
             ([Query (TodoCreate d), Settled,
               Respond \<lparr>status = 201, body = todo_json t\<rparr>], s')
         | (Inl e, s') \<Rightarrow>
             ([Query (TodoCreate d), Settled, Respond internal_server_error], s'))))"

section \<open>The WebSocket adapter\<close>

text \<open>
  \<open>websocket.message\<close>. The two results of \<open>Math.random().toString()\<close> are inputs
  \<open>r1\<close> and \<open>r2\<close>.
\<close>

definition message :: "'s client \<Rightarrow> string \<Rightarrow> string \<Rightarrow> ws_data \<Rightarrow> 's \<Rightarrow> event list \<times> 's" where
  "message c r1 r2 m s =
     (let d = \<lparr>ud_username = JStr r1, ud_password = JStr r2\<rparr> in
      case user_create c d s of
        (Inr newUser, s') \<Rightarrow>
          ([Query (UserCreate d), Settled, ConsoleLog newUser, WsSend m], s')
      | (Inl e, s') \<Rightarrow>
          ([Query (UserCreate d), Settled, ConsoleError e,
            WsSend (Text ''Error creating user'')], s'))"

section \<open>The server-rendered page\<close>

text \<open>
  \<open>Home()\<close> awaits \<open>user.findMany()\<close> and renders \<open>JSON.stringify(users)\<close>; it has no
  error handling, so a rejection leaves the function as an exception.
\<close>

definition Home :: "'s client \<Rightarrow> 's \<Rightarrow> event list \<times> 's" where
  "Home c s =
     (case user_findMany c s of
        (Inr us, s') \<Rightarrow>
          ([Query UserFindMany, Settled, Render (JArr (map user_json us))], s')
      | (Inl e, s') \<Rightarrow>
          ([Query UserFindMany, Settled, Uncaught (Rejection e)], s'))"

text \<open>Every inbound trigger of the three services.\<close>

datatype trigger =
    GetRoot
  | GetTodos
  | PostRoot "reqbody option"
  | PostTodos "reqbody option"
  | WsMessage string string ws_data
  | PageRender

fun handle :: "'s client \<Rightarrow> trigger \<Rightarrow> 's \<Rightarrow> event list \<times> 's" where
  "handle c GetRoot s = get_root c s"
| "handle c GetTodos s = get_todos c s"
| "handle c (PostRoot b) s = post_root c b s"
| "handle c (PostTodos b) s = post_todos c b s"
| "handle c (WsMessage r1 r2 m) s = message c r1 r2 m s"
| "handle c PageRender s = Home c s"

text \<open>The storage calls a handler issued, in order.\<close>

fun calls :: "event list \<Rightarrow> call list" where
  "calls [] = []"
| "calls (Query q # es) = q # calls es"
| "calls (e # es) = calls es"

text \<open>The HTTP responses a handler sent, in order.\<close>

fun responses :: "event list \<Rightarrow> response list" where
  "responses [] = []"
| "responses (Respond r # es) = r # responses es"
| "responses (e # es) = responses es"

text \<open>The WebSocket frames a handler sent, in order.\<close>

fun sends :: "event list \<Rightarrow> ws_data list" where
  "sends [] = []"
| "sends (WsSend m # es) = m # sends es"
| "sends (e # es) = sends es"


section \<open>The storage layer\<close>

text \<open>
  What the relational store does with the statements that touch the two tables. The
  constraints on \<open>Todo\<close> are those of \<open>migration.sql\<close>: \<open>Todo_pkey\<close>, the default of
  \<open>done\<close>, and \<open>Todo_userId_fkey\<close> with \<open>ON DELETE RESTRICT ON UPDATE CASCADE\<close>.
  A statement that violates a constraint fails and changes nothing.
\<close>

text \<open>
  Every column is \<open>TEXT\<close> but \<open>done\<close>, and the store refuses a text value that contains
  U+0000 when it receives the statement, before it looks at any constraint.
\<close>

definition text_ok :: "string \<Rightarrow> bool" where
  "text_ok x = (CHR 0x00 \<notin> set x)"

definition user_ids :: "db \<Rightarrow> string list" where
  "user_ids s = map user_id (users s)"

definition todo_ids :: "db \<Rightarrow> string list" where
  "todo_ids s = map todo_id (todos s)"

text \<open>
  Modelled from the spec: the primary key of the \<open>User\<close> table (its migration is not
  among the sources); the spec calls the identifier unique.
\<close>

definition insert_user :: "user \<Rightarrow> db \<Rightarrow> storage_error + db" where
  "insert_user u s =
     (if \<not> (text_ok (user_id u) \<and> text_ok (user_username u) \<and> text_ok (user_password u))
      then Inl InvalidText
      else if user_id u \<in> set (user_ids s) then Inl UniqueViolation
      else Inr (s\<lparr>users := users s @ [u]\<rparr>))"

text \<open>
  \<open>INSERT INTO "Todo"\<close>, returning the stored row. \<open>done\<close> is \<open>None\<close> when the statement
  leaves the column out, and the column default applies.
\<close>

definition insert_todo ::
  "string \<Rightarrow> string \<Rightarrow> bool option \<Rightarrow> string \<Rightarrow> db \<Rightarrow> storage_error + (todo \<times> db)" where
  "insert_todo i task done uid s =
     (if \<not> (text_ok i \<and> text_ok task \<and> text_ok uid) then Inl InvalidText
      else if i \<in> set (todo_ids s) then Inl UniqueViolation
      else if uid \<notin> set (user_ids s) then Inl ForeignKeyViolation
      else
        (let row = \<lparr>todo_id = i, todo_task = task,
                    todo_done = (case done of None \<Rightarrow> False | Some b \<Rightarrow> b),
                    todo_userId = uid\<rparr>
         in Inr (row, s\<lparr>todos := todos s @ [row]\<rparr>)))"








section \<open>The Connection Pool Manager and the shared client\<close>

text \<open>
  \<open>packages/db/index.ts\<close>: \<open>process.env.DATABASE_URL || ''\<close>. The process environment is
  a map from variable names to strings; an unset variable and an empty one both give
  the empty connection string. Nothing in the module throws. (The second copy of the
  module among the sources reads the variable with \<open>as string\<close> and checks it no more.)
\<close>

type_synonym process_env = "string \<rightharpoonup> string"

definition connectionString :: "process_env \<Rightarrow> string" where
  "connectionString env =
     (case env ''DATABASE_URL'' of None \<Rightarrow> [] | Some v \<Rightarrow> if v = [] then [] else v)"

text \<open>\<open>new pg.Pool({connectionString})\<close>: the handle only records its configuration.\<close>

record pool =
  pool_connectionString :: string

definition pgPool :: "process_env \<Rightarrow> pool" where
  "pgPool env = \<lparr>pool_connectionString = connectionString env\<rparr>"

text \<open>
  Evaluating the module at process start either throws or exports the shared client
  over its pool. The module loads the environment, reads the variable, constructs
  pool, adapter and client, and exports; no statement looks at the value it read, and
  none throws.
\<close>

datatype startup_error = ConfigurationError


text \<open>
  The surroundings of one storage call, which the program does not control: the
  connection strings with which a connection reaches the store, whether the
  round-trip times out, and the identifier the client generates for a new row.
\<close>

record world =
  reaches_store :: "string set"
  times_out :: bool
  generated_id :: string

text \<open>
  Connections are opened lazily, by the first operation that needs one; an operation
  fails with a connectivity error when the pool's connection string does not reach
  the store.
\<close>

definition round_trip :: "pool \<Rightarrow> world \<Rightarrow> storage_error option" where
  "round_trip p w =
     (if pool_connectionString p \<notin> reaches_store w then Some Connectivity
      else if times_out w then Some Timeout
      else None)"

text \<open>The client checks \<open>data\<close> against the column types before it sends anything.\<close>

fun as_string :: "jsval \<Rightarrow> string option" where
  "as_string (JStr x) = Some x"
| "as_string v = None"

text \<open>A column with a default: \<open>undefined\<close> leaves it out, a boolean sets it.\<close>

fun as_optional_bool :: "jsval \<Rightarrow> bool option option" where
  "as_optional_bool Undefined = Some None"
| "as_optional_bool (JBool b) = Some (Some b)"
| "as_optional_bool v = None"

definition prisma_user_findMany :: "pool \<Rightarrow> world \<Rightarrow> db \<Rightarrow> (storage_error + user list) \<times> db" where
  "prisma_user_findMany p w s =
     (case round_trip p w of Some e \<Rightarrow> (Inl e, s) | None \<Rightarrow> (Inr (users s), s))"

definition prisma_todo_findMany :: "pool \<Rightarrow> world \<Rightarrow> db \<Rightarrow> (storage_error + todo list) \<times> db" where
  "prisma_todo_findMany p w s =
     (case round_trip p w of Some e \<Rightarrow> (Inl e, s) | None \<Rightarrow> (Inr (todos s), s))"

definition prisma_user_create ::
  "pool \<Rightarrow> world \<Rightarrow> user_data \<Rightarrow> db \<Rightarrow> (storage_error + user) \<times> db" where
  "prisma_user_create p w d s =
     (case as_string (ud_username d) of None \<Rightarrow> (Inl InvalidArgument, s) | Some u \<Rightarrow>
     (case as_string (ud_password d) of None \<Rightarrow> (Inl InvalidArgument, s) | Some pw \<Rightarrow>
     (case round_trip p w of Some e \<Rightarrow> (Inl e, s) | None \<Rightarrow>
        (let row = \<lparr>user_id = generated_id w, user_username = u, user_password = pw\<rparr> in
         case insert_user row s of Inl e \<Rightarrow> (Inl e, s) | Inr s' \<Rightarrow> (Inr row, s')))))"

definition prisma_todo_create ::
  "pool \<Rightarrow> world \<Rightarrow> todo_data \<Rightarrow> db \<Rightarrow> (storage_error + todo) \<times> db" where
  "prisma_todo_create p w d s =
     (case as_string (td_task d) of None \<Rightarrow> (Inl InvalidArgument, s) | Some task \<Rightarrow>
     (case as_string (td_userId d) of None \<Rightarrow> (Inl InvalidArgument, s) | Some uid \<Rightarrow>
     (case as_optional_bool (td_done d) of None \<Rightarrow> (Inl InvalidArgument, s) | Some done \<Rightarrow>
     (case round_trip p w of Some e \<Rightarrow> (Inl e, s) | None \<Rightarrow>
        (case insert_todo (generated_id w) task done uid s of
           Inl e \<Rightarrow> (Inl e, s) | Inr (row, s') \<Rightarrow> (Inr row, s'))))))"

text \<open>\<open>new PrismaClient({adapter})\<close> over the pool.\<close>

definition prismaClient :: "pool \<Rightarrow> world \<Rightarrow> db client" where
  "prismaClient p w =
     \<lparr>user_findMany = prisma_user_findMany p w,
      user_create = prisma_user_create p w,
      todo_findMany = prisma_todo_findMany p w,
      todo_create = prisma_todo_create p w\<rparr>"

text \<open>
  A service handles its triggers one storage call at a time: each handler issues at
  most one call, so a run of the services is a sequence of triggers, each with the
  surroundings of its call.
\<close>

fun serve :: "pool \<Rightarrow> (world \<times> trigger) list \<Rightarrow> db \<Rightarrow> db" where
  "serve p [] s = s"
| "serve p ((w, t) # wts) s = serve p wts (snd (handle (prismaClient p w) t s))"



section \<open>Properties\<close>

lemma string_truthy: "truthy (JStr x) = (x \<noteq> [])"
  by simp

text \<open>
  C2. A \<open>POST /\<close> request whose parsed body lacks \<open>username\<close> or \<open>password\<close> (or holds a
  falsy value there: empty, \<open>null\<close>, \<open>false\<close>, \<open>0\<close>) is answered with status 400, and the
  handler issues no storage call: whatever client it is given, a spy included, it
  never calls it and returns the state as it was. A request that carried no JSON
  body at all, so that both fields are missing, does not reach that test: the
  destructuring throws, no storage call is issued, and the answer is the 500 of
  Express's error handler, not a 400. \<open>POST /todos\<close> starts with the same destructuring.
\<close>

theorem post_root_missing_field:
  "(\<not> truthy (getprop b ''username'') \<or> \<not> truthy (getprop b ''password'') \<longrightarrow>
      post_root c (Some b) s =
        ([Respond \<lparr>status = 400,
                   body = JObj [(''error'', JStr ''Username and password are required'')]\<rparr>], s)
      \<and> calls (fst (post_root c (Some b) s)) = [])
   \<and> post_root c None s = ([Uncaught TypeError, DefaultErrorPage 500], s)
   \<and> calls (fst (post_root c None s)) = []
   \<and> responses (fst (post_root c None s)) = []
   \<and> post_todos c None s = ([Uncaught TypeError, DefaultErrorPage 500], s)"
  by (auto simp: post_root_def post_todos_def Let_def)

theorem post_root_missing_field_witness:
  "\<not> truthy (getprop [''username'' \<mapsto> JStr ''bob''] ''password'')
   \<and> post_root
        (prismaClient (pgPool Map.empty) \<lparr>reaches_store = UNIV, times_out = False, generated_id = ''u1''\<rparr>)
        (Some [''username'' \<mapsto> JStr ''bob'']) empty_db =
       ([Respond \<lparr>status = 400,
                  body = JObj [(''error'', JStr ''Username and password are required'')]\<rparr>], empty_db)
   \<and> post_root
        (prismaClient (pgPool Map.empty) \<lparr>reaches_store = UNIV, times_out = False, generated_id = ''u1''\<rparr>)
        None empty_db =
       ([Uncaught TypeError, DefaultErrorPage 500], empty_db)"
proof -
  let ?c = "prismaClient (pgPool Map.empty)
              \<lparr>reaches_store = UNIV, times_out = False, generated_id = ''u1''\<rparr>"
  have h: "\<not> truthy (getprop [''username'' \<mapsto> JStr ''bob''] ''password'')"
    by (simp add: getprop_def)
  note T = post_root_missing_field
    [where b = "[''username'' \<mapsto> JStr ''bob'']" and s = empty_db and c = ?c]
  from T [THEN conjunct1, rule_format, OF disjI2, OF h] T [THEN conjunct2, THEN conjunct1] h
  show ?thesis by (simp only: simp_thms)
qed



text \<open>
  C10. A \<open>POST /todos\<close> request whose \<open>task\<close> and \<open>userId\<close> are truthy (every non-empty
  string is) always carries out the storage call, on whatever client, with \<open>done\<close>
  passed on exactly as it came: the state after the handler is the state the call
  left, the answer is 201 with the record the call resolved with, or the generic 500
  when the call was rejected, and never 400. With the shared client, a \<open>done\<close> that is
  neither absent nor a boolean is rejected by the client and answered with 500, and a
  boolean \<open>done\<close> is stored as sent.
\<close>

theorem post_todos_done_unvalidated:
  assumes "truthy (getprop b ''task'')" and "truthy (getprop b ''userId'')"
  shows "(todo_create c \<lparr>td_task = getprop b ''task'', td_userId = getprop b ''userId'',
                          td_done = getprop b ''done''\<rparr> s = (Inr t, s') \<longrightarrow>
            post_todos c (Some b) s =
              ([Query (TodoCreate \<lparr>td_task = getprop b ''task'', td_userId = getprop b ''userId'',
                                    td_done = getprop b ''done''\<rparr>),
                Settled, Respond \<lparr>status = 201, body = todo_json t\<rparr>], s'))
         \<and> (todo_create c \<lparr>td_task = getprop b ''task'', td_userId = getprop b ''userId'',
                          td_done = getprop b ''done''\<rparr> s = (Inl e, s') \<longrightarrow>
            post_todos c (Some b) s =
              ([Query (TodoCreate \<lparr>td_task = getprop b ''task'', td_userId = getprop b ''userId'',
                                    td_done = getprop b ''done''\<rparr>),
                Settled, Respond internal_server_error], s'))
         \<and> calls (fst (post_todos c (Some b) s)) =
           [TodoCreate \<lparr>td_task = getprop b ''task'', td_userId = getprop b ''userId'',
                        td_done = getprop b ''done''\<rparr>]
         \<and> map status (responses (fst (post_todos c (Some b) s))) \<in> {[201], [500]}
         \<and> (as_optional_bool (getprop b ''done'') = None \<longrightarrow>
              post_todos (prismaClient p w) (Some b) s0 =
                ([Query (TodoCreate \<lparr>td_task = getprop b ''task'', td_userId = getprop b ''userId'',
                                      td_done = getprop b ''done''\<rparr>),
                  Settled, Respond internal_server_error], s0))
         \<and> (getprop b ''task'' = JStr task \<and> getprop b ''userId'' = JStr uid
              \<and> getprop b ''done'' = JBool v
              \<and> round_trip p w = None \<and> text_ok (generated_id w) \<and> text_ok task \<and> text_ok uid
              \<and> generated_id w \<notin> set (todo_ids s0) \<and> uid \<in> set (user_ids s0) \<longrightarrow>
              post_todos (prismaClient p w) (Some b) s0 =
                ([Query (TodoCreate \<lparr>td_task = JStr task, td_userId = JStr uid,
                                      td_done = JBool v\<rparr>),
                  Settled,
                  Respond \<lparr>status = 201, body = todo_json
                    \<lparr>todo_id = generated_id w, todo_task = task, todo_done = v,
                     todo_userId = uid\<rparr>\<rparr>],
                 s0\<lparr>todos := todos s0 @
                    [\<lparr>todo_id = generated_id w, todo_task = task, todo_done = v,
                      todo_userId = uid\<rparr>]\<rparr>))"
proof (intro conjI impI)
  assume "todo_create c \<lparr>td_task = getprop b ''task'', td_userId = getprop b ''userId'',
                          td_done = getprop b ''done''\<rparr> s = (Inr t, s')"
  with assms show "post_todos c (Some b) s =
              ([Query (TodoCreate \<lparr>td_task = getprop b ''task'', td_userId = getprop b ''userId'',
                                    td_done = getprop b ''done''\<rparr>),
                Settled, Respond \<lparr>status = 201, body = todo_json t\<rparr>], s')"
    by (simp add: post_todos_def Let_def)
next
  assume "todo_create c \<lparr>td_task = getprop b ''task'', td_userId = getprop b ''userId'',
                          td_done = getprop b ''done''\<rparr> s = (Inl e, s')"
  with assms show "post_todos c (Some b) s =
              ([Query (TodoCreate \<lparr>td_task = getprop b ''task'', td_userId = getprop b ''userId'',
                                    td_done = getprop b ''done''\<rparr>),
                Settled, Respond internal_server_error], s')"
    by (simp add: post_todos_def Let_def)
next
  from assms show "calls (fst (post_todos c (Some b) s)) =
           [TodoCreate \<lparr>td_task = getprop b ''task'', td_userId = getprop b ''userId'',
                        td_done = getprop b ''done''\<rparr>]"
    by (simp add: post_todos_def Let_def split: prod.splits sum.splits)
next
  from assms show "map status (responses (fst (post_todos c (Some b) s))) \<in> {[201], [500]}"
    by (simp add: post_todos_def Let_def internal_server_error_def split: prod.splits sum.splits)
next
  assume "as_optional_bool (getprop b ''done'') = None"
  with assms show "post_todos (prismaClient p w) (Some b) s0 =
                ([Query (TodoCreate \<lparr>td_task = getprop b ''task'', td_userId = getprop b ''userId'',
                                      td_done = getprop b ''done''\<rparr>),
                  Settled, Respond internal_server_error], s0)"
    by (simp add: post_todos_def Let_def prismaClient_def prisma_todo_create_def
          split: option.splits)
next
  assume "getprop b ''task'' = JStr task \<and> getprop b ''userId'' = JStr uid
              \<and> getprop b ''done'' = JBool v
              \<and> round_trip p w = None \<and> text_ok (generated_id w) \<and> text_ok task \<and> text_ok uid
              \<and> generated_id w \<notin> set (todo_ids s0) \<and> uid \<in> set (user_ids s0)"
  with assms show "post_todos (prismaClient p w) (Some b) s0 =
                ([Query (TodoCreate \<lparr>td_task = JStr task, td_userId = JStr uid,
                                      td_done = JBool v\<rparr>),
                  Settled,
                  Respond \<lparr>status = 201, body = todo_json
                    \<lparr>todo_id = generated_id w, todo_task = task, todo_done = v,
                     todo_userId = uid\<rparr>\<rparr>],
                 s0\<lparr>todos := todos s0 @
                    [\<lparr>todo_id = generated_id w, todo_task = task, todo_done = v,
                      todo_userId = uid\<rparr>]\<rparr>)"
    by (simp add: post_todos_def Let_def prismaClient_def prisma_todo_create_def
          insert_todo_def)
qed

theorem post_todos_done_unvalidated_witness:
  "truthy (getprop [''task'' \<mapsto> JStr ''x'', ''userId'' \<mapsto> JStr ''u1'', ''done'' \<mapsto> JStr ''yes''] ''task'')
   \<and> truthy (getprop [''task'' \<mapsto> JStr ''x'', ''userId'' \<mapsto> JStr ''u1'', ''done'' \<mapsto> JStr ''yes''] ''userId'')
   \<and> as_optional_bool
         (getprop [''task'' \<mapsto> JStr ''x'', ''userId'' \<mapsto> JStr ''u1'', ''done'' \<mapsto> JStr ''yes''] ''done'') = None
   \<and> post_todos
        (prismaClient (pgPool [''DATABASE_URL'' \<mapsto> ''postgresql://db:5432/app''])
           \<lparr>reaches_store = UNIV, times_out = False, generated_id = ''t1''\<rparr>)
        (Some [''task'' \<mapsto> JStr ''x'', ''userId'' \<mapsto> JStr ''u1'', ''done'' \<mapsto> JStr ''yes''])
        \<lparr>users = [\<lparr>user_id = ''u1'', user_username = ''alice'', user_password = ''p1''\<rparr>],
         todos = []\<rparr>
      = ([Query (TodoCreate \<lparr>td_task = JStr ''x'', td_userId = JStr ''u1'', td_done = JStr ''yes''\<rparr>),
          Settled, Respond internal_server_error],
         \<lparr>users = [\<lparr>user_id = ''u1'', user_username = ''alice'', user_password = ''p1''\<rparr>],
          todos = []\<rparr>)
   \<and> post_todos
        (prismaClient (pgPool [''DATABASE_URL'' \<mapsto> ''postgresql://db:5432/app''])
           \<lparr>reaches_store = UNIV, times_out = False, generated_id = ''t1''\<rparr>)
        (Some [''task'' \<mapsto> JStr ''x'', ''userId'' \<mapsto> JStr ''u1'', ''done'' \<mapsto> JBool True])
        \<lparr>users = [\<lparr>user_id = ''u1'', user_username = ''alice'', user_password = ''p1''\<rparr>],
         todos = []\<rparr>
      = ([Query (TodoCreate \<lparr>td_task = JStr ''x'', td_userId = JStr ''u1'', td_done = JBool True\<rparr>),
          Settled,
          Respond \<lparr>status = 201, body = todo_json
            \<lparr>todo_id = ''t1'', todo_task = ''x'', todo_done = True, todo_userId = ''u1''\<rparr>\<rparr>],
         \<lparr>users = [\<lparr>user_id = ''u1'', user_username = ''alice'', user_password = ''p1''\<rparr>],
          todos = [\<lparr>todo_id = ''t1'', todo_task = ''x'', todo_done = True,
                    todo_userId = ''u1''\<rparr>]\<rparr>)"
proof -
  let ?p = "pgPool [''DATABASE_URL'' \<mapsto> ''postgresql://db:5432/app'']"
  let ?w = "\<lparr>reaches_store = UNIV, times_out = False, generated_id = ''t1''\<rparr>"
  let ?s1 = "\<lparr>users = [\<lparr>user_id = ''u1'', user_username = ''alice'', user_password = ''p1''\<rparr>],
              todos = []\<rparr>"
  let ?b = "[''task'' \<mapsto> JStr ''x'', ''userId'' \<mapsto> JStr ''u1'', ''done'' \<mapsto> JStr ''yes'']"
  let ?g = "[''task'' \<mapsto> JStr ''x'', ''userId'' \<mapsto> JStr ''u1'', ''done'' \<mapsto> JBool True]"
  have h1: "truthy (getprop ?b ''task'')" and h2: "truthy (getprop ?b ''userId'')"
    and h3: "as_optional_bool (getprop ?b ''done'') = None"
    by (simp_all add: getprop_def)
  have g: "getprop ?b ''task'' = JStr ''x''" "getprop ?b ''userId'' = JStr ''u1''"
    "getprop ?b ''done'' = JStr ''yes''"
    by (simp_all add: getprop_def)
  have k1: "truthy (getprop ?g ''task'')" and k2: "truthy (getprop ?g ''userId'')"
    by (simp_all add: getprop_def)
  have k3: "getprop ?g ''task'' = JStr ''x'' \<and> getprop ?g ''userId'' = JStr ''u1''
      \<and> getprop ?g ''done'' = JBool True
      \<and> round_trip ?p ?w = None \<and> text_ok (generated_id ?w) \<and> text_ok ''x'' \<and> text_ok ''u1''
      \<and> generated_id ?w \<notin> set (todo_ids ?s1) \<and> ''u1'' \<in> set (user_ids ?s1)"
    by (simp add: getprop_def round_trip_def text_ok_def todo_ids_def user_ids_def)
  have bad: "post_todos (prismaClient ?p ?w) (Some ?b) ?s1 =
      ([Query (TodoCreate \<lparr>td_task = JStr ''x'', td_userId = JStr ''u1'', td_done = JStr ''yes''\<rparr>),
        Settled, Respond internal_server_error], ?s1)"
    using post_todos_done_unvalidated [OF h1 h2, THEN conjunct2, THEN conjunct2, THEN conjunct2,
        THEN conjunct2, THEN conjunct1, rule_format, OF h3, of ?p ?w ?s1]
    by (simp only: g)
  have good: "post_todos (prismaClient ?p ?w) (Some ?g) ?s1 =
      ([Query (TodoCreate \<lparr>td_task = JStr ''x'', td_userId = JStr ''u1'', td_done = JBool True\<rparr>),
        Settled,
        Respond \<lparr>status = 201, body = todo_json
          \<lparr>todo_id = ''t1'', todo_task = ''x'', todo_done = True, todo_userId = ''u1''\<rparr>\<rparr>],
       \<lparr>users = [\<lparr>user_id = ''u1'', user_username = ''alice'', user_password = ''p1''\<rparr>],
        todos = [\<lparr>todo_id = ''t1'', todo_task = ''x'', todo_done = True,
                  todo_userId = ''u1''\<rparr>]\<rparr>)"
    using post_todos_done_unvalidated [OF k1 k2, THEN conjunct2, THEN conjunct2, THEN conjunct2,
        THEN conjunct2, THEN conjunct2, rule_format, OF k3]
    by simp
  from h1 h2 h3 bad good show ?thesis
    by (simp only: simp_thms)
qed

text \<open>The triggers only ever add rows at the end of a table.\<close>

lemma handle_prefix:
  "prefix (users s) (users (snd (handle (prismaClient p w) t s)))
   \<and> prefix (todos s) (todos (snd (handle (prismaClient p w) t s)))"
  by (cases t)
     (auto simp: get_root_def get_todos_def post_root_def post_todos_def message_def Home_def
        Let_def prismaClient_def prisma_user_findMany_def prisma_todo_findMany_def
        prisma_user_create_def prisma_todo_create_def insert_user_def insert_todo_def
        split: option.splits sum.splits prod.splits if_splits)

lemma serve_prefix:
  "prefix (users s) (users (serve p wts s)) \<and> prefix (todos s) (todos (serve p wts s))"
proof (induction wts arbitrary: s)
  case Nil
  show ?case by simp
next
  case (Cons wt wts)
  obtain w t where wt: "wt = (w, t)" by (cases wt)
  let ?s1 = "snd (handle (prismaClient p w) t s)"
  from handle_prefix [of s p w t] Cons.IH [of ?s1]
  show ?case unfolding wt by (auto intro: prefix_order.trans)
qed

text \<open>A 201 from \<open>POST /\<close> carries an identifier that was not stored before and is now.\<close>

lemma post_root_201_fresh:
  assumes "responses (fst (post_root (prismaClient p w) b s)) = [\<lparr>status = 201, body = user_json r\<rparr>]"
  shows "user_id r \<notin> set (user_ids s)
         \<and> user_id r \<in> set (user_ids (snd (post_root (prismaClient p w) b s)))"
  using assms
  by (auto simp: post_root_def Let_def prismaClient_def prisma_user_create_def insert_user_def
        user_json_def internal_server_error_def user_ids_def
        split: option.splits sum.splits prod.splits if_splits)

text \<open>
  C1, as the code has it. For a \<open>POST /\<close> request whose \<open>username\<close> and \<open>password\<close> are
  non-empty strings, the handler issues exactly one \<open>user.create\<close> with those values.
  When the insert succeeds (the store is reached in time, no text value contains
  U+0000 and the generated identifier is not taken) the answer is 201 with the created
  record, whose \<open>username\<close> and \<open>password\<close> are the inputs, and the row is appended; when
  it fails the answer is 500 and nothing is stored. The identifier of a record answered
  with 201 differs from the identifier answered by any later successful \<open>POST /\<close>,
  whatever was handled in between.
\<close>

theorem post_root_creates_user:
  assumes "b ''username'' = Some (JStr u)" and "u \<noteq> []"
    and "b ''password'' = Some (JStr pw)" and "pw \<noteq> []"
  shows "post_root (prismaClient p w) (Some b) s =
           (if round_trip p w = None \<and> text_ok (generated_id w) \<and> text_ok u \<and> text_ok pw
                 \<and> generated_id w \<notin> set (user_ids s)
            then ([Query (UserCreate \<lparr>ud_username = JStr u, ud_password = JStr pw\<rparr>), Settled,
                   Respond \<lparr>status = 201, body = user_json
                     \<lparr>user_id = generated_id w, user_username = u, user_password = pw\<rparr>\<rparr>],
                  s\<lparr>users := users s @
                     [\<lparr>user_id = generated_id w, user_username = u, user_password = pw\<rparr>]\<rparr>)
            else ([Query (UserCreate \<lparr>ud_username = JStr u, ud_password = JStr pw\<rparr>), Settled,
                   Respond internal_server_error], s))
         \<and> (\<forall>wts w' b' r r'.
              responses (fst (post_root (prismaClient p w) (Some b) s))
                = [\<lparr>status = 201, body = user_json r\<rparr>]
              \<and> responses (fst (post_root (prismaClient p w') b'
                    (serve p wts (snd (post_root (prismaClient p w) (Some b) s)))))
                = [\<lparr>status = 201, body = user_json r'\<rparr>]
              \<longrightarrow> user_id r \<noteq> user_id r')"
proof (intro conjI allI impI)
  show "post_root (prismaClient p w) (Some b) s =
           (if round_trip p w = None \<and> text_ok (generated_id w) \<and> text_ok u \<and> text_ok pw
                 \<and> generated_id w \<notin> set (user_ids s)
            then ([Query (UserCreate \<lparr>ud_username = JStr u, ud_password = JStr pw\<rparr>), Settled,
                   Respond \<lparr>status = 201, body = user_json
                     \<lparr>user_id = generated_id w, user_username = u, user_password = pw\<rparr>\<rparr>],
                  s\<lparr>users := users s @
                     [\<lparr>user_id = generated_id w, user_username = u, user_password = pw\<rparr>]\<rparr>)
            else ([Query (UserCreate \<lparr>ud_username = JStr u, ud_password = JStr pw\<rparr>), Settled,
                   Respond internal_server_error], s))"
    using assms
    by (auto simp: post_root_def Let_def getprop_def prismaClient_def prisma_user_create_def
          insert_user_def split: option.splits)
next
  fix wts w' b' r r'
  let ?s1 = "snd (post_root (prismaClient p w) (Some b) s)"
  let ?s2 = "serve p wts ?s1"
  assume h: "responses (fst (post_root (prismaClient p w) (Some b) s))
                = [\<lparr>status = 201, body = user_json r\<rparr>]
              \<and> responses (fst (post_root (prismaClient p w') b' ?s2))
                = [\<lparr>status = 201, body = user_json r'\<rparr>]"
  from h post_root_201_fresh [of p w "Some b" s r] have "user_id r \<in> set (user_ids ?s1)"
    by simp
  moreover from serve_prefix [of ?s1 p wts] have "set (user_ids ?s1) \<subseteq> set (user_ids ?s2)"
    by (auto simp: user_ids_def dest: set_mono_prefix)
  moreover from h post_root_201_fresh [of p w' b' ?s2 r'] have "user_id r' \<notin> set (user_ids ?s2)"
    by simp
  ultimately show "user_id r \<noteq> user_id r'"
    by auto
qed

theorem post_root_creates_user_witness:
  "post_root
     (prismaClient (pgPool [''DATABASE_URL'' \<mapsto> ''postgresql://db:5432/app''])
        \<lparr>reaches_store = UNIV, times_out = False, generated_id = ''u1''\<rparr>)
     (Some [''username'' \<mapsto> JStr ''alice'', ''password'' \<mapsto> JStr ''p1'']) empty_db
   = ([Query (UserCreate \<lparr>ud_username = JStr ''alice'', ud_password = JStr ''p1''\<rparr>), Settled,
       Respond \<lparr>status = 201, body = user_json
         \<lparr>user_id = ''u1'', user_username = ''alice'', user_password = ''p1''\<rparr>\<rparr>],
      \<lparr>users = [\<lparr>user_id = ''u1'', user_username = ''alice'', user_password = ''p1''\<rparr>],
       todos = []\<rparr>)
   \<and> post_root
     (prismaClient (pgPool [''DATABASE_URL'' \<mapsto> ''postgresql://db:5432/app''])
        \<lparr>reaches_store = UNIV, times_out = False, generated_id = ''u1''\<rparr>)
     (Some [''username'' \<mapsto> JStr ''bob'', ''password'' \<mapsto> JStr ''p2''])
     \<lparr>users = [\<lparr>user_id = ''u1'', user_username = ''alice'', user_password = ''p1''\<rparr>],
      todos = []\<rparr>
   = ([Query (UserCreate \<lparr>ud_username = JStr ''bob'', ud_password = JStr ''p2''\<rparr>), Settled,
       Respond internal_server_error],
      \<lparr>users = [\<lparr>user_id = ''u1'', user_username = ''alice'', user_password = ''p1''\<rparr>],
       todos = []\<rparr>)
   \<and> responses (fst (post_root
     (prismaClient (pgPool [''DATABASE_URL'' \<mapsto> ''postgresql://db:5432/app''])
        \<lparr>reaches_store = UNIV, times_out = False, generated_id = ''u2''\<rparr>)
     (Some [''username'' \<mapsto> JStr ''bob'', ''password'' \<mapsto> JStr ''p2''])
     (serve (pgPool [''DATABASE_URL'' \<mapsto> ''postgresql://db:5432/app'']) []
        \<lparr>users = [\<lparr>user_id = ''u1'', user_username = ''alice'', user_password = ''p1''\<rparr>],
         todos = []\<rparr>)))
     = [\<lparr>status = 201, body = user_json
          \<lparr>user_id = ''u2'', user_username = ''bob'', user_password = ''p2''\<rparr>\<rparr>]
   \<and> user_id \<lparr>user_id = ''u1'', user_username = ''alice'', user_password = ''p1''\<rparr>
       \<noteq> user_id \<lparr>user_id = ''u2'', user_username = ''bob'', user_password = ''p2''\<rparr>
   \<and> post_root
     (prismaClient (pgPool [''DATABASE_URL'' \<mapsto> ''postgresql://db:5432/app''])
        \<lparr>reaches_store = UNIV, times_out = False, generated_id = ''u1''\<rparr>)
     (Some [''username'' \<mapsto> JStr [CHR ''a'', CHR 0x00, CHR ''b''], ''password'' \<mapsto> JStr ''p1''])
     empty_db
   = ([Query (UserCreate \<lparr>ud_username = JStr [CHR ''a'', CHR 0x00, CHR ''b''],
                           ud_password = JStr ''p1''\<rparr>), Settled,
       Respond internal_server_error], empty_db)"
proof -
  let ?p = "pgPool [''DATABASE_URL'' \<mapsto> ''postgresql://db:5432/app'']"
  let ?w = "\<lparr>reaches_store = UNIV, times_out = False, generated_id = ''u1''\<rparr>"
  let ?w2 = "\<lparr>reaches_store = UNIV, times_out = False, generated_id = ''u2''\<rparr>"
  let ?r1 = "\<lparr>user_id = ''u1'', user_username = ''alice'', user_password = ''p1''\<rparr>"
  let ?r2 = "\<lparr>user_id = ''u2'', user_username = ''bob'', user_password = ''p2''\<rparr>"
  let ?ba = "[''username'' \<mapsto> JStr ''alice'', ''password'' \<mapsto> JStr ''p1'']"
  let ?bb = "[''username'' \<mapsto> JStr ''bob'', ''password'' \<mapsto> JStr ''p2'']"
  let ?s1 = "\<lparr>users = [\<lparr>user_id = ''u1'', user_username = ''alice'', user_password = ''p1''\<rparr>],
              todos = []\<rparr>"
  have a: "?ba ''username'' = Some (JStr ''alice'')" "''alice'' \<noteq> []"
    "?ba ''password'' = Some (JStr ''p1'')" "''p1'' \<noteq> []"
    by simp_all
  have b: "?bb ''username'' = Some (JStr ''bob'')" "''bob'' \<noteq> []"
    "?bb ''password'' = Some (JStr ''p2'')" "''p2'' \<noteq> []"
    by simp_all
  have r: "round_trip ?p ?w = None"
    by (simp add: round_trip_def)
  have r2: "round_trip ?p ?w2 = None"
    by (simp add: round_trip_def)
  have first: "post_root (prismaClient ?p ?w) (Some ?ba) empty_db =
      ([Query (UserCreate \<lparr>ud_username = JStr ''alice'', ud_password = JStr ''p1''\<rparr>), Settled,
        Respond \<lparr>status = 201, body = user_json ?r1\<rparr>], ?s1)"
    unfolding post_root_creates_user [OF a, of ?p ?w empty_db, THEN conjunct1]
    by (simp add: r user_ids_def empty_db_def text_ok_def)
  have clash: "post_root (prismaClient ?p ?w) (Some ?bb) ?s1 =
      ([Query (UserCreate \<lparr>ud_username = JStr ''bob'', ud_password = JStr ''p2''\<rparr>), Settled,
        Respond internal_server_error], ?s1)"
    unfolding post_root_creates_user [OF b, of ?p ?w ?s1, THEN conjunct1]
    by (simp add: r user_ids_def text_ok_def)
  have later: "responses (fst (post_root (prismaClient ?p ?w2) (Some ?bb) (serve ?p [] ?s1)))
      = [\<lparr>status = 201, body = user_json ?r2\<rparr>]"
    unfolding serve.simps post_root_creates_user [OF b, of ?p ?w2 ?s1, THEN conjunct1]
    by (simp add: r2 user_ids_def text_ok_def)
  have "user_id ?r1 \<noteq> user_id ?r2"
    by (rule post_root_creates_user [OF a, of ?p ?w empty_db, THEN conjunct2, rule_format,
          where r = ?r1 and w' = ?w2 and b' = "Some ?bb" and wts = "[]" and r' = ?r2])
       (simp only: first later fst_conv snd_conv responses.simps simp_thms)
  let ?bn = "[''username'' \<mapsto> JStr [CHR ''a'', CHR 0x00, CHR ''b''], ''password'' \<mapsto> JStr ''p1'']"
  have n: "?bn ''username'' = Some (JStr [CHR ''a'', CHR 0x00, CHR ''b''])"
    "[CHR ''a'', CHR 0x00, CHR ''b''] \<noteq> []"
    "?bn ''password'' = Some (JStr ''p1'')" "''p1'' \<noteq> []"
    by simp_all
  have nul: "post_root (prismaClient ?p ?w) (Some ?bn) empty_db =
      ([Query (UserCreate \<lparr>ud_username = JStr [CHR ''a'', CHR 0x00, CHR ''b''],
                             ud_password = JStr ''p1''\<rparr>), Settled,
        Respond internal_server_error], empty_db)"
    unfolding post_root_creates_user [OF n, of ?p ?w empty_db, THEN conjunct1]
    by (simp add: text_ok_def)
  with first clash later \<open>user_id ?r1 \<noteq> user_id ?r2\<close> show ?thesis
    by (simp only: simp_thms)
qed

text \<open>
  C1 as stated promises 201 for every request with both fields present and non-empty.
  With the store out of reach the same request is answered with 500.
\<close>

theorem post_root_valid_fields_store_down:
  "post_root
     (prismaClient (pgPool [''DATABASE_URL'' \<mapsto> ''postgresql://db:5432/app''])
        \<lparr>reaches_store = {}, times_out = False, generated_id = ''u1''\<rparr>)
     (Some [''username'' \<mapsto> JStr ''alice'', ''password'' \<mapsto> JStr ''p1'']) empty_db
   = ([Query (UserCreate \<lparr>ud_username = JStr ''alice'', ud_password = JStr ''p1''\<rparr>), Settled,
       Respond \<lparr>status = 500, body = JObj [(''error'', JStr ''Internal Server Error'')]\<rparr>],
      empty_db)"
  by (simp add: post_root_def Let_def getprop_def prismaClient_def prisma_user_create_def
        round_trip_def pgPool_def connectionString_def internal_server_error_def)

text \<open>
  C3, as the code has it. For a \<open>POST /todos\<close> request with non-empty strings \<open>task\<close> and
  \<open>userId\<close> and no \<open>done\<close>: when the insert succeeds (the store is reached in time, no
  text value contains U+0000, the generated identifier is not taken, \<open>userId\<close> is the
  identifier of a stored user) the created record has \<open>done = false\<close> and the answer is
  201 with that record; otherwise the answer is 500 and nothing is stored. A request
  whose parsed body lacks \<open>task\<close> or \<open>userId\<close> is answered with 400, for every client.
\<close>

theorem post_todos_done_defaults_false:
  "(b ''task'' = Some (JStr task) \<and> task \<noteq> [] \<and> b ''userId'' = Some (JStr uid) \<and> uid \<noteq> []
      \<and> b ''done'' = None \<longrightarrow>
      post_todos (prismaClient p w) (Some b) s =
        (if round_trip p w = None \<and> text_ok (generated_id w) \<and> text_ok task \<and> text_ok uid
              \<and> generated_id w \<notin> set (todo_ids s) \<and> uid \<in> set (user_ids s)
         then ([Query (TodoCreate \<lparr>td_task = JStr task, td_userId = JStr uid, td_done = Undefined\<rparr>),
                Settled,
                Respond \<lparr>status = 201, body = todo_json
                  \<lparr>todo_id = generated_id w, todo_task = task, todo_done = False,
                   todo_userId = uid\<rparr>\<rparr>],
               s\<lparr>todos := todos s @
                  [\<lparr>todo_id = generated_id w, todo_task = task, todo_done = False,
                    todo_userId = uid\<rparr>]\<rparr>)
         else ([Query (TodoCreate \<lparr>td_task = JStr task, td_userId = JStr uid, td_done = Undefined\<rparr>),
                Settled, Respond internal_server_error], s)))
   \<and> (\<not> truthy (getprop b ''task'') \<or> \<not> truthy (getprop b ''userId'') \<longrightarrow>
      post_todos c (Some b) s' =
        ([Respond \<lparr>status = 400,
                   body = JObj [(''error'', JStr ''Task and userId are required'')]\<rparr>], s'))"
  by (auto simp: post_todos_def Let_def getprop_def prismaClient_def prisma_todo_create_def
        insert_todo_def split: option.splits)

theorem post_todos_done_defaults_false_witness:
  "post_todos
     (prismaClient (pgPool [''DATABASE_URL'' \<mapsto> ''postgresql://db:5432/app''])
        \<lparr>reaches_store = UNIV, times_out = False, generated_id = ''t1''\<rparr>)
     (Some [''task'' \<mapsto> JStr ''buy milk'', ''userId'' \<mapsto> JStr ''u1''])
     \<lparr>users = [\<lparr>user_id = ''u1'', user_username = ''alice'', user_password = ''p1''\<rparr>],
      todos = []\<rparr>
   = ([Query (TodoCreate \<lparr>td_task = JStr ''buy milk'', td_userId = JStr ''u1'',
                          td_done = Undefined\<rparr>),
       Settled,
       Respond \<lparr>status = 201, body = todo_json
         \<lparr>todo_id = ''t1'', todo_task = ''buy milk'', todo_done = False, todo_userId = ''u1''\<rparr>\<rparr>],
      \<lparr>users = [\<lparr>user_id = ''u1'', user_username = ''alice'', user_password = ''p1''\<rparr>],
       todos = [\<lparr>todo_id = ''t1'', todo_task = ''buy milk'', todo_done = False,
                 todo_userId = ''u1''\<rparr>]\<rparr>)
   \<and> post_todos
     (prismaClient (pgPool [''DATABASE_URL'' \<mapsto> ''postgresql://db:5432/app''])
        \<lparr>reaches_store = UNIV, times_out = False, generated_id = ''t1''\<rparr>)
     (Some [''task'' \<mapsto> JStr [CHR ''a'', CHR 0x00, CHR ''b''], ''userId'' \<mapsto> JStr ''u1''])
     \<lparr>users = [\<lparr>user_id = ''u1'', user_username = ''alice'', user_password = ''p1''\<rparr>],
      todos = []\<rparr>
   = ([Query (TodoCreate \<lparr>td_task = JStr [CHR ''a'', CHR 0x00, CHR ''b''],
                          td_userId = JStr ''u1'', td_done = Undefined\<rparr>),
       Settled, Respond internal_server_error],
      \<lparr>users = [\<lparr>user_id = ''u1'', user_username = ''alice'', user_password = ''p1''\<rparr>],
       todos = []\<rparr>)
   \<and> post_todos
     (prismaClient (pgPool [''DATABASE_URL'' \<mapsto> ''postgresql://db:5432/app''])
        \<lparr>reaches_store = UNIV, times_out = False, generated_id = ''t1''\<rparr>)
     (Some [''userId'' \<mapsto> JStr ''u1'']) empty_db
   = ([Respond \<lparr>status = 400,
                 body = JObj [(''error'', JStr ''Task and userId are required'')]\<rparr>], empty_db)"
proof -
  let ?p = "pgPool [''DATABASE_URL'' \<mapsto> ''postgresql://db:5432/app'']"
  let ?w = "\<lparr>reaches_store = UNIV, times_out = False, generated_id = ''t1''\<rparr>"
  let ?b = "[''task'' \<mapsto> JStr ''buy milk'', ''userId'' \<mapsto> JStr ''u1'']"
  let ?n = "[''task'' \<mapsto> JStr [CHR ''a'', CHR 0x00, CHR ''b''], ''userId'' \<mapsto> JStr ''u1'']"
  let ?s1 = "\<lparr>users = [\<lparr>user_id = ''u1'', user_username = ''alice'', user_password = ''p1''\<rparr>],
              todos = []\<rparr>"
  have r: "round_trip ?p ?w = None"
    by (simp add: round_trip_def)
  have m: "\<not> truthy (getprop [''userId'' \<mapsto> JStr ''u1''] ''task'')"
    by (simp add: getprop_def)
  have h: "?b ''task'' = Some (JStr ''buy milk'') \<and> ''buy milk'' \<noteq> []
      \<and> ?b ''userId'' = Some (JStr ''u1'') \<and> ''u1'' \<noteq> [] \<and> ?b ''done'' = None"
    by simp
  have k: "?n ''task'' = Some (JStr [CHR ''a'', CHR 0x00, CHR ''b''])
      \<and> [CHR ''a'', CHR 0x00, CHR ''b''] \<noteq> []
      \<and> ?n ''userId'' = Some (JStr ''u1'') \<and> ''u1'' \<noteq> [] \<and> ?n ''done'' = None"
    by simp
  show ?thesis
    unfolding post_todos_done_defaults_false [THEN conjunct1, rule_format, OF h, of ?p ?w ?s1]
      post_todos_done_defaults_false [THEN conjunct1, rule_format, OF k, of ?p ?w ?s1]
      post_todos_done_defaults_false [THEN conjunct2, rule_format, OF disjI1, OF m,
        of "prismaClient ?p ?w" empty_db]
    by (simp add: r user_ids_def todo_ids_def text_ok_def)
qed

text \<open>
  C3 as stated promises 201 for every request with non-empty \<open>task\<close> and \<open>userId\<close> and no
  \<open>done\<close>. When \<open>userId\<close> names no stored user the answer is 500 and no row is stored.
\<close>

theorem post_todos_unknown_user_is_500:
  "post_todos
     (prismaClient (pgPool [''DATABASE_URL'' \<mapsto> ''postgresql://db:5432/app''])
        \<lparr>reaches_store = UNIV, times_out = False, generated_id = ''t1''\<rparr>)
     (Some [''task'' \<mapsto> JStr ''x'', ''userId'' \<mapsto> JStr ''nonexistent''])
     \<lparr>users = [\<lparr>user_id = ''u1'', user_username = ''alice'', user_password = ''p1''\<rparr>],
      todos = []\<rparr>
   = ([Query (TodoCreate \<lparr>td_task = JStr ''x'', td_userId = JStr ''nonexistent'',
                          td_done = Undefined\<rparr>),
       Settled,
       Respond \<lparr>status = 500, body = JObj [(''error'', JStr ''Internal Server Error'')]\<rparr>],
      \<lparr>users = [\<lparr>user_id = ''u1'', user_username = ''alice'', user_password = ''p1''\<rparr>],
       todos = []\<rparr>)"
  by (simp add: post_todos_def Let_def getprop_def prismaClient_def prisma_todo_create_def
        round_trip_def pgPool_def connectionString_def internal_server_error_def insert_todo_def
        user_ids_def todo_ids_def text_ok_def)







text \<open>
  C5. For every inbound WebSocket message the handler issues exactly one \<open>user.create\<close>,
  with the two generated strings as credentials, whatever client it runs on. When the
  creation resolves, the one frame sent is the inbound message itself; when it is
  rejected, the one frame sent is the text \<open>Error creating user\<close>, whatever the message
  was. With the shared client the creation succeeds exactly when the store is reached
  in time, no text value contains U+0000 and the generated identifier is not taken:
  then the new user row is in storage; otherwise storage is unchanged.
\<close>

theorem message_creates_user_then_echoes:
  "calls (fst (message c r1 r2 m s)) = [UserCreate \<lparr>ud_username = JStr r1, ud_password = JStr r2\<rparr>]
   \<and> (fst (user_create c \<lparr>ud_username = JStr r1, ud_password = JStr r2\<rparr> s) = Inr u \<longrightarrow>
        sends (fst (message c r1 r2 m s)) = [m])
   \<and> (fst (user_create c \<lparr>ud_username = JStr r1, ud_password = JStr r2\<rparr> s) = Inl e \<longrightarrow>
        sends (fst (message c r1 r2 m s)) = [Text ''Error creating user''])
   \<and> (round_trip p w = None \<and> text_ok (generated_id w) \<and> text_ok r1 \<and> text_ok r2
        \<and> generated_id w \<notin> set (user_ids s0) \<longrightarrow>
        message (prismaClient p w) r1 r2 m s0 =
          ([Query (UserCreate \<lparr>ud_username = JStr r1, ud_password = JStr r2\<rparr>), Settled,
            ConsoleLog \<lparr>user_id = generated_id w, user_username = r1, user_password = r2\<rparr>,
            WsSend m],
           s0\<lparr>users := users s0 @
               [\<lparr>user_id = generated_id w, user_username = r1, user_password = r2\<rparr>]\<rparr>))
   \<and> (\<not> (round_trip p w = None \<and> text_ok (generated_id w) \<and> text_ok r1 \<and> text_ok r2
        \<and> generated_id w \<notin> set (user_ids s0)) \<longrightarrow>
        sends (fst (message (prismaClient p w) r1 r2 m s0)) = [Text ''Error creating user'']
        \<and> snd (message (prismaClient p w) r1 r2 m s0) = s0)"
proof (intro conjI impI)
  show "calls (fst (message c r1 r2 m s)) =
          [UserCreate \<lparr>ud_username = JStr r1, ud_password = JStr r2\<rparr>]"
    by (simp add: message_def Let_def split: prod.splits sum.splits)
next
  assume "fst (user_create c \<lparr>ud_username = JStr r1, ud_password = JStr r2\<rparr> s) = Inr u"
  then show "sends (fst (message c r1 r2 m s)) = [m]"
    by (auto simp: message_def Let_def split: prod.splits sum.splits)
next
  assume "fst (user_create c \<lparr>ud_username = JStr r1, ud_password = JStr r2\<rparr> s) = Inl e"
  then show "sends (fst (message c r1 r2 m s)) = [Text ''Error creating user'']"
    by (auto simp: message_def Let_def split: prod.splits sum.splits)
next
  assume "round_trip p w = None \<and> text_ok (generated_id w) \<and> text_ok r1 \<and> text_ok r2
        \<and> generated_id w \<notin> set (user_ids s0)"
  then show "message (prismaClient p w) r1 r2 m s0 =
          ([Query (UserCreate \<lparr>ud_username = JStr r1, ud_password = JStr r2\<rparr>), Settled,
            ConsoleLog \<lparr>user_id = generated_id w, user_username = r1, user_password = r2\<rparr>,
            WsSend m],
           s0\<lparr>users := users s0 @
               [\<lparr>user_id = generated_id w, user_username = r1, user_password = r2\<rparr>]\<rparr>)"
    by (simp add: message_def Let_def prismaClient_def prisma_user_create_def insert_user_def)
next
  assume "\<not> (round_trip p w = None \<and> text_ok (generated_id w) \<and> text_ok r1 \<and> text_ok r2
        \<and> generated_id w \<notin> set (user_ids s0))"
  then show "sends (fst (message (prismaClient p w) r1 r2 m s0)) = [Text ''Error creating user'']"
    by (auto simp: message_def Let_def prismaClient_def prisma_user_create_def insert_user_def
          split: option.splits)
next
  assume "\<not> (round_trip p w = None \<and> text_ok (generated_id w) \<and> text_ok r1 \<and> text_ok r2
        \<and> generated_id w \<notin> set (user_ids s0))"
  then show "snd (message (prismaClient p w) r1 r2 m s0) = s0"
    by (auto simp: message_def Let_def prismaClient_def prisma_user_create_def insert_user_def
          split: option.splits)
qed

theorem message_creates_user_then_echoes_witness:
  "message
     (prismaClient (pgPool [''DATABASE_URL'' \<mapsto> ''postgresql://db:5432/app''])
        \<lparr>reaches_store = UNIV, times_out = False, generated_id = ''u1''\<rparr>)
     ''0.8444218515250481'' ''0.7579544029403025'' (Text ''hello'') empty_db
   = ([Query (UserCreate \<lparr>ud_username = JStr ''0.8444218515250481'',
                           ud_password = JStr ''0.7579544029403025''\<rparr>), Settled,
       ConsoleLog \<lparr>user_id = ''u1'', user_username = ''0.8444218515250481'',
                   user_password = ''0.7579544029403025''\<rparr>,
       WsSend (Text ''hello'')],
      \<lparr>users = [\<lparr>user_id = ''u1'', user_username = ''0.8444218515250481'',
                 user_password = ''0.7579544029403025''\<rparr>],
       todos = []\<rparr>)
   \<and> sends (fst (message
     (prismaClient (pgPool [''DATABASE_URL'' \<mapsto> ''postgresql://db:5432/app''])
        \<lparr>reaches_store = {}, times_out = False, generated_id = ''u1''\<rparr>)
     ''0.8444218515250481'' ''0.7579544029403025'' (Text ''hello'') empty_db))
     = [Text ''Error creating user'']
   \<and> snd (message
     (prismaClient (pgPool [''DATABASE_URL'' \<mapsto> ''postgresql://db:5432/app''])
        \<lparr>reaches_store = {}, times_out = False, generated_id = ''u1''\<rparr>)
     ''0.8444218515250481'' ''0.7579544029403025'' (Text ''hello'') empty_db) = empty_db
   \<and> sends (fst (message
     (prismaClient (pgPool [''DATABASE_URL'' \<mapsto> ''postgresql://db:5432/app''])
        \<lparr>reaches_store = UNIV, times_out = False, generated_id = ''u1''\<rparr>)
     ''0.8444218515250481'' ''0.7579544029403025'' (Binary [0x68, 0x69]) empty_db))
     = [Binary [0x68, 0x69]]
   \<and> sends (fst (message
     (prismaClient (pgPool [''DATABASE_URL'' \<mapsto> ''postgresql://db:5432/app''])
        \<lparr>reaches_store = UNIV, times_out = True, generated_id = ''u1''\<rparr>)
     ''0.8444218515250481'' ''0.7579544029403025'' (Binary [0x68, 0x69]) empty_db))
     = [Text ''Error creating user'']"
proof -
  let ?p = "pgPool [''DATABASE_URL'' \<mapsto> ''postgresql://db:5432/app'']"
  let ?up = "\<lparr>reaches_store = UNIV, times_out = False, generated_id = ''u1''\<rparr>"
  let ?down = "\<lparr>reaches_store = {}, times_out = False, generated_id = ''u1''\<rparr>"
  note T = message_creates_user_then_echoes
  have a: "round_trip ?p ?up = None \<and> text_ok (generated_id ?up)
      \<and> text_ok ''0.8444218515250481'' \<and> text_ok ''0.7579544029403025''
      \<and> generated_id ?up \<notin> set (user_ids empty_db)"
    by (simp add: round_trip_def user_ids_def empty_db_def text_ok_def)
  have b: "\<not> (round_trip ?p ?down = None \<and> text_ok (generated_id ?down)
      \<and> text_ok ''0.8444218515250481'' \<and> text_ok ''0.7579544029403025''
      \<and> generated_id ?down \<notin> set (user_ids empty_db))"
    by (simp add: round_trip_def)
  from T [THEN conjunct2, THEN conjunct2, THEN conjunct2, THEN conjunct1, rule_format, OF a,
          of "Text ''hello''"]
  have c1: "message (prismaClient ?p ?up) ''0.8444218515250481'' ''0.7579544029403025''
       (Text ''hello'') empty_db
     = ([Query (UserCreate \<lparr>ud_username = JStr ''0.8444218515250481'',
                             ud_password = JStr ''0.7579544029403025''\<rparr>), Settled,
         ConsoleLog \<lparr>user_id = ''u1'', user_username = ''0.8444218515250481'',
                     user_password = ''0.7579544029403025''\<rparr>,
         WsSend (Text ''hello'')],
        \<lparr>users = [\<lparr>user_id = ''u1'', user_username = ''0.8444218515250481'',
                   user_password = ''0.7579544029403025''\<rparr>],
         todos = []\<rparr>)"
    by (simp add: empty_db_def)
  from T [THEN conjunct2, THEN conjunct2, THEN conjunct2, THEN conjunct2, rule_format, OF b,
          of "Text ''hello''"]
  have c2: "sends (fst (message (prismaClient ?p ?down) ''0.8444218515250481''
        ''0.7579544029403025'' (Text ''hello'') empty_db)) = [Text ''Error creating user'']"
    and c3: "snd (message (prismaClient ?p ?down) ''0.8444218515250481''
        ''0.7579544029403025'' (Text ''hello'') empty_db) = empty_db"
    by simp_all
  let ?d = "\<lparr>ud_username = JStr ''0.8444218515250481'',
             ud_password = JStr ''0.7579544029403025''\<rparr>"
  let ?late = "\<lparr>reaches_store = UNIV, times_out = True, generated_id = ''u1''\<rparr>"
  have ok: "fst (user_create (prismaClient ?p ?up) ?d empty_db)
      = Inr \<lparr>user_id = ''u1'', user_username = ''0.8444218515250481'',
              user_password = ''0.7579544029403025''\<rparr>"
    by (simp add: prismaClient_def prisma_user_create_def round_trip_def insert_user_def
          user_ids_def empty_db_def Let_def text_ok_def)
  have ko: "fst (user_create (prismaClient ?p ?late) ?d empty_db) = Inl Timeout"
    by (simp add: prismaClient_def prisma_user_create_def round_trip_def)
  have c4: "sends (fst (message (prismaClient ?p ?up) ''0.8444218515250481''
        ''0.7579544029403025'' (Binary [0x68, 0x69]) empty_db)) = [Binary [0x68, 0x69]]"
    by (rule T [THEN conjunct2, THEN conjunct1, rule_format, OF ok])
  have c5: "sends (fst (message (prismaClient ?p ?late) ''0.8444218515250481''
        ''0.7579544029403025'' (Binary [0x68, 0x69]) empty_db)) = [Text ''Error creating user'']"
    by (rule T [THEN conjunct2, THEN conjunct2, THEN conjunct1, rule_format, OF ko])
  from c1 c2 c3 c4 c5 show ?thesis
    by (simp only: simp_thms)
qed





text \<open>A trigger stores at most one new row, and the reads store none.\<close>

lemma handle_inserts_at_most_one_row:
  "length (users (snd (handle (prismaClient p w) t s)))
     + length (todos (snd (handle (prismaClient p w) t s)))
   \<le> Suc (length (users s) + length (todos s))"
  by (cases t)
     (auto simp: get_root_def get_todos_def post_root_def post_todos_def message_def Home_def
        Let_def prismaClient_def prisma_user_findMany_def prisma_todo_findMany_def
        prisma_user_create_def prisma_todo_create_def insert_user_def insert_todo_def
        split: option.splits sum.splits prod.splits if_splits)

lemma reads_change_nothing:
  "snd (get_root (prismaClient p w) s) = s \<and> snd (get_todos (prismaClient p w) s) = s
   \<and> snd (Home (prismaClient p w) s) = s"
  by (simp add: get_root_def get_todos_def Home_def prismaClient_def prisma_user_findMany_def
        prisma_todo_findMany_def split: option.splits)

text \<open>
  C8. No trigger of the REST adapter, the WebSocket handler or the page render changes
  or removes a stored row: after any trigger, and after any run of triggers, the old
  \<open>User\<close> and \<open>Todo\<close> tables are prefixes of the new ones, and one trigger adds at most
  one row. The reads leave the state exactly as it was, so two \<open>user.findMany\<close> calls
  with nothing in between return the same records.
\<close>

theorem triggers_read_or_insert_only:
  "prefix (users s) (users (snd (handle (prismaClient p w) t s)))
   \<and> prefix (todos s) (todos (snd (handle (prismaClient p w) t s)))
   \<and> length (users (snd (handle (prismaClient p w) t s)))
        + length (todos (snd (handle (prismaClient p w) t s)))
      \<le> Suc (length (users s) + length (todos s))
   \<and> prefix (users s) (users (serve p wts s)) \<and> prefix (todos s) (todos (serve p wts s))
   \<and> snd (get_root (prismaClient p w) s) = s
   \<and> snd (get_todos (prismaClient p w) s) = s
   \<and> snd (Home (prismaClient p w) s) = s
   \<and> snd (prisma_user_findMany p w s) = s
   \<and> (fst (prisma_user_findMany p w s) = Inr us
        \<and> fst (prisma_user_findMany p w' (snd (prisma_user_findMany p w s))) = Inr us'
        \<longrightarrow> us' = us \<and> us = users s)"
proof (intro conjI impI)
  show "prefix (users s) (users (snd (handle (prismaClient p w) t s)))"
    and "prefix (todos s) (todos (snd (handle (prismaClient p w) t s)))"
    using handle_prefix [of s p w t] by simp_all
  show "length (users (snd (handle (prismaClient p w) t s)))
        + length (todos (snd (handle (prismaClient p w) t s)))
      \<le> Suc (length (users s) + length (todos s))"
    by (rule handle_inserts_at_most_one_row)
  show "prefix (users s) (users (serve p wts s))" and "prefix (todos s) (todos (serve p wts s))"
    using serve_prefix [of s p wts] by simp_all
  show "snd (get_root (prismaClient p w) s) = s" and "snd (get_todos (prismaClient p w) s) = s"
    and "snd (Home (prismaClient p w) s) = s"
    using reads_change_nothing [of p w s] by simp_all
  show "snd (prisma_user_findMany p w s) = s"
    by (simp add: prisma_user_findMany_def split: option.splits)
next
  assume h: "fst (prisma_user_findMany p w s) = Inr us
        \<and> fst (prisma_user_findMany p w' (snd (prisma_user_findMany p w s))) = Inr us'"
  then show "us' = us" and "us = users s"
    by (auto simp: prisma_user_findMany_def split: option.splits)
qed

theorem triggers_read_or_insert_only_witness:
  "fst (prisma_user_findMany (pgPool [''DATABASE_URL'' \<mapsto> ''postgresql://db:5432/app''])
         \<lparr>reaches_store = UNIV, times_out = False, generated_id = ''u2''\<rparr>
         \<lparr>users = [\<lparr>user_id = ''u1'', user_username = ''alice'', user_password = ''p1''\<rparr>],
          todos = []\<rparr>)
     = Inr [\<lparr>user_id = ''u1'', user_username = ''alice'', user_password = ''p1''\<rparr>]
   \<and> fst (prisma_user_findMany (pgPool [''DATABASE_URL'' \<mapsto> ''postgresql://db:5432/app''])
         \<lparr>reaches_store = UNIV, times_out = False, generated_id = ''u3''\<rparr>
         (snd (prisma_user_findMany (pgPool [''DATABASE_URL'' \<mapsto> ''postgresql://db:5432/app''])
            \<lparr>reaches_store = UNIV, times_out = False, generated_id = ''u2''\<rparr>
            \<lparr>users = [\<lparr>user_id = ''u1'', user_username = ''alice'', user_password = ''p1''\<rparr>],
             todos = []\<rparr>)))
     = Inr [\<lparr>user_id = ''u1'', user_username = ''alice'', user_password = ''p1''\<rparr>]
   \<and> prefix [\<lparr>user_id = ''u1'', user_username = ''alice'', user_password = ''p1''\<rparr>]
       (users (snd (handle
          (prismaClient (pgPool [''DATABASE_URL'' \<mapsto> ''postgresql://db:5432/app''])
             \<lparr>reaches_store = UNIV, times_out = False, generated_id = ''u2''\<rparr>)
          (PostRoot (Some [''username'' \<mapsto> JStr ''bob'', ''password'' \<mapsto> JStr ''p2'']))
          \<lparr>users = [\<lparr>user_id = ''u1'', user_username = ''alice'', user_password = ''p1''\<rparr>],
           todos = []\<rparr>)))"
proof -
  let ?p = "pgPool [''DATABASE_URL'' \<mapsto> ''postgresql://db:5432/app'']"
  let ?w = "\<lparr>reaches_store = UNIV, times_out = False, generated_id = ''u2''\<rparr>"
  let ?w' = "\<lparr>reaches_store = UNIV, times_out = False, generated_id = ''u3''\<rparr>"
  let ?u1 = "\<lparr>user_id = ''u1'', user_username = ''alice'', user_password = ''p1''\<rparr>"
  let ?s = "\<lparr>users = [?u1], todos = []\<rparr>"
  note T = triggers_read_or_insert_only
    [where p = ?p and w = ?w and w' = ?w' and s = ?s
       and t = "PostRoot (Some [''username'' \<mapsto> JStr ''bob'', ''password'' \<mapsto> JStr ''p2''])"]
  have a: "fst (prisma_user_findMany ?p ?w ?s) = Inr [?u1]"
    by (simp add: prisma_user_findMany_def round_trip_def)
  from T have same: "snd (prisma_user_findMany ?p ?w ?s) = ?s"
    by blast
  have b: "fst (prisma_user_findMany ?p ?w' (snd (prisma_user_findMany ?p ?w ?s))) = Inr [?u1]"
    unfolding same by (simp add: prisma_user_findMany_def round_trip_def)
  from T have c: "prefix (users ?s) (users (snd (handle (prismaClient ?p ?w)
      (PostRoot (Some [''username'' \<mapsto> JStr ''bob'', ''password'' \<mapsto> JStr ''p2''])) ?s)))"
    by blast
  have "users ?s = [?u1]"
    by simp
  with a b c show ?thesis
    by (simp only: simp_thms)
qed





end
